theory Spec2Isabelle
  imports Complex_Main "HOL-Library.List_Lexorder" "HOL-Library.Char_ord"
begin

section \<open>Python exceptions\<close>

text \<open>
  Every \<^verbatim>\<open>raise\<close> of the source, and every exception Python itself raises on
  the operations used (subscripting \<^verbatim>\<open>None\<close>, a missing dictionary key, an empty
  list), is a value of this type; a function that can raise returns
  \<open>error + 'a\<close>, with \<open>Inl\<close> for the exception.
\<close>

datatype error =
    ValueError string
  | TypeError string
  | KeyError
  | IndexError
  | ZeroDivisionError
  | UnboundLocalError
  | AttributeError string
  | FloatingPointError

section \<open>The basis-image caches of \<^verbatim>\<open>Series\<close> (series.py)\<close>

text \<open>
  A cache key is either one of the \<^verbatim>\<open>object()\<close> placeholders made by
  \<^verbatim>\<open>Series.__init__\<close> (equal only to itself; the serial number is its identity)
  or a 3-tuple built by \<^verbatim>\<open>drawImage\<close>/\<^verbatim>\<open>drawKImage\<close>.
\<close>

datatype 'k key = Placeholder nat | Tuple 'k

text \<open>
  A link is the Python list \<^verbatim>\<open>[PREV, NEXT, KEY, RESULT]\<close>. Links are mutable
  objects that refer to each other, so they live in a heap and are named by their
  address; \<open>None\<close> is Python's \<^verbatim>\<open>None\<close>.
\<close>

record ('k, 't) link =
  PREV :: "nat option"
  NEXT :: "nat option"
  KEY :: "'k key option"
  RESULT :: "'t option"

text \<open>
  The class attributes \<^verbatim>\<open>Series._cache\<close>, \<^verbatim>\<open>Series._kcache\<close>,
  \<^verbatim>\<open>Series._root\<close>, \<^verbatim>\<open>Series._kroot\<close>, together with the heap of the
  link objects (\<open>nalloc\<close> is the next unused address).
\<close>

record ('k, 't) Series_cls =
  heap :: "nat \<Rightarrow> ('k, 't) link"
  nalloc :: nat
  cache :: "'k key \<Rightarrow> nat option"
  kcache :: "'k key \<Rightarrow> nat option"
  root :: "nat option"
  kroot :: "nat option"

definition Series_cls0 :: "('k, 't) Series_cls" where
  "Series_cls0 =
     \<lparr>heap = (\<lambda>_. \<lparr>PREV = None, NEXT = None, KEY = None, RESULT = None\<rparr>), nalloc = 0,
      cache = Map.empty, kcache = Map.empty, root = None, kroot = None\<rparr>"

text \<open>
  The loop \<^verbatim>\<open>for i in range(maxcache): key = object();
  cache[key] = last[1] = last = [last, root, key, None]\<close>.
  The targets of the chained assignment are assigned from left to right, so
  \<^verbatim>\<open>last[1]\<close> is the NEXT field of the previous \<^verbatim>\<open>last\<close>.
  The state of the loop is (heap, next address, dictionary, last); \<open>lst\<close> is the
  source's \<^verbatim>\<open>last\<close>.
\<close>

fun init_loop :: "nat \<Rightarrow> nat \<Rightarrow>
    (nat \<Rightarrow> ('k, 't) link) \<times> nat \<times> ('k key \<Rightarrow> nat option) \<times> nat \<Rightarrow>
    (nat \<Rightarrow> ('k, 't) link) \<times> nat \<times> ('k key \<Rightarrow> nat option) \<times> nat" where
  "init_loop 0 rt s = s"
| "init_loop (Suc n) rt (h, a, c, lst) =
     (let key = Placeholder a;
          h1 = h(a := \<lparr>PREV = Some lst, NEXT = Some rt, KEY = Some key, RESULT = None\<rparr>);
          c1 = c(key \<mapsto> a);
          h2 = h1(lst := (h1 lst)\<lparr>NEXT := Some a\<rparr>)
      in init_loop n rt (h2, Suc a, c1, a))"

text \<open>
  \<^verbatim>\<open>Series.__init__(self, maxcache=100)\<close>. The caches are built only when
  \<^verbatim>\<open>Series._root\<close> is still \<^verbatim>\<open>None\<close>. The last statement of the source is
  \<^verbatim>\<open>kroot[0] = last\<close>: it stores the last link of the real-space list, not
  \<^verbatim>\<open>klast\<close>.
\<close>

definition Series_init :: "nat \<Rightarrow> ('k, 't) Series_cls \<Rightarrow> ('k, 't) Series_cls" where
  "Series_init maxcache s =
     (if root s \<noteq> None then s
      else
        let rt = nalloc s;
            h0 = (heap s)(rt := \<lparr>PREV = None, NEXT = None, KEY = None, RESULT = None\<rparr>);
            (h1, a1, c1, lst) = init_loop maxcache rt (h0, Suc rt, cache s, rt);
            h2 = h1(rt := (h1 rt)\<lparr>PREV := Some lst\<rparr>);
            krt = a1;
            h3 = h2(krt := \<lparr>PREV = None, NEXT = None, KEY = None, RESULT = None\<rparr>);
            (h4, a2, kc1, klast) = init_loop maxcache krt (h3, Suc krt, kcache s, krt);
            h5 = h4(krt := (h4 krt)\<lparr>PREV := Some lst\<rparr>)
        in s\<lparr>heap := h5, nalloc := a2, cache := c1, kcache := kc1,
              root := Some rt, kroot := Some krt\<rparr>)"

text \<open>Reading and writing an item of a link; on \<^verbatim>\<open>None\<close> Python raises TypeError.\<close>

definition getitem :: "(nat \<Rightarrow> ('k, 't) link) \<Rightarrow> nat option \<Rightarrow> error + ('k, 't) link" where
  "getitem h p =
     (case p of None \<Rightarrow> Inl (TypeError ''NoneType object is not subscriptable'')
      | Some a \<Rightarrow> Inr (h a))"

definition setitem :: "(nat \<Rightarrow> ('k, 't) link) \<Rightarrow> nat option \<Rightarrow>
    (('k, 't) link \<Rightarrow> ('k, 't) link) \<Rightarrow> error + (nat \<Rightarrow> ('k, 't) link)" where
  "setitem h p f =
     (case p of None \<Rightarrow> Inl (TypeError ''NoneType object does not support item assignment'')
      | Some a \<Rightarrow> Inr (h(a := f (h a))))"

text \<open>
  The hit branch shared by \<^verbatim>\<open>_basisCube\<close> and \<^verbatim>\<open>_basisKCube\<close>
  (lines 97-104 and 143-150): unlink \<^verbatim>\<open>link\<close> and relink it before the root.
\<close>

definition hit :: "nat \<Rightarrow> nat option \<Rightarrow> (nat \<Rightarrow> ('k, 't) link) \<Rightarrow>
    error + ('t option \<times> (nat \<Rightarrow> ('k, 't) link))" where
  "hit lnk rt h =
     (let link_prev = PREV (h lnk); link_next = NEXT (h lnk); result = RESULT (h lnk) in
      case setitem h link_prev (\<lambda>l. l\<lparr>NEXT := link_next\<rparr>) of Inl e \<Rightarrow> Inl e | Inr h1 \<Rightarrow>
      case setitem h1 link_next (\<lambda>l. l\<lparr>PREV := link_prev\<rparr>) of Inl e \<Rightarrow> Inl e | Inr h2 \<Rightarrow>
      case getitem h2 rt of Inl e \<Rightarrow> Inl e | Inr r \<Rightarrow>
      let lst = PREV r in
      case setitem h2 lst (\<lambda>l. l\<lparr>NEXT := Some lnk\<rparr>) of Inl e \<Rightarrow> Inl e | Inr h3 \<Rightarrow>
      case setitem h3 rt (\<lambda>l. l\<lparr>PREV := Some lnk\<rparr>) of Inl e \<Rightarrow> Inl e | Inr h4 \<Rightarrow>
      let h5 = h4(lnk := (h4 lnk)\<lparr>PREV := lst\<rparr>);
          h6 = h5(lnk := (h5 lnk)\<lparr>NEXT := rt\<rparr>)
      in Inr (result, h6))"

text \<open>
  The miss branch after the table has been drawn (lines 118-127 and 167-176): the
  root takes the key and the table, the link after it becomes the new, empty root,
  and its key leaves the dictionary. The result is (dictionary, root, heap).
\<close>

definition miss :: "'k key \<Rightarrow> 't \<Rightarrow> ('k key \<Rightarrow> nat option) \<Rightarrow> nat option \<Rightarrow>
    (nat \<Rightarrow> ('k, 't) link) \<Rightarrow>
    error + (('k key \<Rightarrow> nat option) \<times> nat option \<times> (nat \<Rightarrow> ('k, 't) link))" where
  "miss key table c rt h =
     (case setitem h rt (\<lambda>l. l\<lparr>KEY := Some key\<rparr>) of Inl e \<Rightarrow> Inl e | Inr h1 \<Rightarrow>
      case setitem h1 rt (\<lambda>l. l\<lparr>RESULT := Some table\<rparr>) of Inl e \<Rightarrow> Inl e | Inr h2 \<Rightarrow>
      case rt of None \<Rightarrow> Inl (TypeError ''NoneType object is not subscriptable'')
      | Some oldroot \<Rightarrow>
      let rt' = NEXT (h2 oldroot) in
      case getitem h2 rt' of Inl e \<Rightarrow> Inl e | Inr r' \<Rightarrow>
      let oldkey = KEY r' in
      case setitem h2 rt' (\<lambda>l. l\<lparr>KEY := None\<rparr>) of Inl e \<Rightarrow> Inl e | Inr h3 \<Rightarrow>
      case setitem h3 rt' (\<lambda>l. l\<lparr>RESULT := None\<rparr>) of Inl e \<Rightarrow> Inl e | Inr h4 \<Rightarrow>
      (case oldkey of None \<Rightarrow> Inl KeyError
       | Some ok \<Rightarrow>
           if c ok = None then Inl KeyError
           else Inr ((c(ok := None))(key := Some oldroot), rt', h4)))"

text \<open>
  \<^verbatim>\<open>Series._basisCube(self, key)\<close>. The first argument is what lines 106-117
  compute from \<^verbatim>\<open>self\<close> and the key when the key is not cached: the table of the
  drawn basis images, or the exception raised while drawing. The result is what the
  method returns (the \<^verbatim>\<open>RESULT\<close> item on a hit) and the new class state. An
  exception loses the state.
\<close>

definition basisCube :: "error + 't \<Rightarrow> 'k \<Rightarrow> ('k, 't) Series_cls \<Rightarrow>
    error + ('t option \<times> ('k, 't) Series_cls)" where
  "basisCube drawn key s =
     (case cache s (Tuple key) of
        Some lnk \<Rightarrow>
          (case hit lnk (root s) (heap s) of Inl e \<Rightarrow> Inl e
           | Inr (result, h) \<Rightarrow> Inr (result, s\<lparr>heap := h\<rparr>))
      | None \<Rightarrow>
          (case drawn of Inl e \<Rightarrow> Inl e
           | Inr table \<Rightarrow>
               (case miss (Tuple key) table (cache s) (root s) (heap s) of Inl e \<Rightarrow> Inl e
                | Inr (c, rt, h) \<Rightarrow> Inr (Some table, s\<lparr>heap := h, cache := c, root := rt\<rparr>))))"

text \<open>\<^verbatim>\<open>Series._basisKCube(self, key)\<close>: the same code on \<^verbatim>\<open>_kcache\<close> and \<^verbatim>\<open>_kroot\<close>.\<close>

definition basisKCube :: "error + 't \<Rightarrow> 'k \<Rightarrow> ('k, 't) Series_cls \<Rightarrow>
    error + ('t option \<times> ('k, 't) Series_cls)" where
  "basisKCube drawn key s =
     (case kcache s (Tuple key) of
        Some lnk \<Rightarrow>
          (case hit lnk (kroot s) (heap s) of Inl e \<Rightarrow> Inl e
           | Inr (result, h) \<Rightarrow> Inr (result, s\<lparr>heap := h\<rparr>))
      | None \<Rightarrow>
          (case drawn of Inl e \<Rightarrow> Inl e
           | Inr table \<Rightarrow>
               (case miss (Tuple key) table (kcache s) (kroot s) (heap s) of Inl e \<Rightarrow> Inl e
                | Inr (c, rt, h) \<Rightarrow> Inr (Some table, s\<lparr>heap := h, kcache := c, kroot := rt\<rparr>))))"


fun basisKCubes :: "((error + 't) \<times> 'k) list \<Rightarrow> ('k, 't) Series_cls \<Rightarrow>
    error + ('k, 't) Series_cls" where
  "basisKCubes [] s = Inr s"
| "basisKCubes ((d, k) # rest) s =
     (case basisKCube d k s of Inl e \<Rightarrow> Inl e | Inr (_, s') \<Rightarrow> basisKCubes rest s')"

text \<open>Observations of the outcome of a run: which keys are cached, and one link.\<close>

definition cached_after :: "'k list \<Rightarrow> error + ('k, 't) Series_cls \<Rightarrow> error + bool list" where
  "cached_after ks r =
     (case r of Inl e \<Rightarrow> Inl e | Inr s \<Rightarrow> Inr (map (\<lambda>k. cache s (Tuple k) \<noteq> None) ks))"

definition link_after :: "nat \<Rightarrow> error + ('k, 't) Series_cls \<Rightarrow> error + ('k, 't) link" where
  "link_after a r = (case r of Inl e \<Rightarrow> Inl e | Inr s \<Rightarrow> Inr (heap s a))"









section \<open>\<^verbatim>\<open>Series.drawImage\<close> (series.py)\<close>

text \<open>
  The keyword arguments are a dictionary: a list of (name, value) items with distinct
  names, in any order. \<^verbatim>\<open>tuple(sorted(kwargs.items()))\<close> sorts the items; the names
  are distinct, so the order is decided by the names alone.
\<close>

definition sorted_items :: "(string \<times> 'a) list \<Rightarrow> (string \<times> 'a) list" where
  "sorted_items kwargs = sort_key fst kwargs"

text \<open>
  What \<^verbatim>\<open>drawImage\<close> uses of \<^verbatim>\<open>self\<close>: the results of \<^verbatim>\<open>_series_idx()\<close>,
  \<^verbatim>\<open>_getBasisFuncs()\<close> and \<^verbatim>\<open>_getCoeffs()\<close>, each possibly an exception.
\<close>

record ('i, 'b, 'c) series_self =
  series_idx :: "error + 'i"
  getBasisFuncs :: "error + 'b list"
  getCoeffs :: "error + 'c list"

text \<open>
  The numerics outside series.py: \<^verbatim>\<open>GSObject.drawImage\<close> of one basis profile,
  the numpy code that stacks the raveled images into the table (with the shape of the
  first image), and \<^verbatim>\<open>np.dot(coeffs, cube).reshape(shape)\<close>.
\<close>

record ('b, 'a, 'c, 'im, 't) numerics =
  drawImage_basis :: "'b \<Rightarrow> 'a list \<Rightarrow> (string \<times> 'a) list \<Rightarrow> error + 'im"
  stack :: "'im \<Rightarrow> 'im list \<Rightarrow> error + 't"
  dot :: "'c list \<Rightarrow> 't \<Rightarrow> error + 'im"

fun collect :: "(error + 'a) list \<Rightarrow> error + 'a list" where
  "collect [] = Inr []"
| "collect (Inl e # _) = Inl e"
| "collect (Inr x # rest) = (case collect rest of Inl e \<Rightarrow> Inl e | Inr xs \<Rightarrow> Inr (x # xs))"

text \<open>
  Lines 106-117 of \<^verbatim>\<open>_basisCube\<close>: \<^verbatim>\<open>objs[0]\<close> is drawn first for the shape,
  then every basis profile is drawn (the first one again) and stacked.
\<close>

definition draw_cube :: "('b, 'a, 'c, 'im, 't) numerics \<Rightarrow> error + 'b list \<Rightarrow> 'a list \<Rightarrow>
    (string \<times> 'a) list \<Rightarrow> error + 't" where
  "draw_cube env objs args kwargs =
     (case objs of Inl e \<Rightarrow> Inl e
      | Inr os \<Rightarrow>
          (case os of [] \<Rightarrow> Inl IndexError
           | obj0 # _ \<Rightarrow>
               (case drawImage_basis env obj0 args kwargs of Inl e \<Rightarrow> Inl e
                | Inr im0 \<Rightarrow>
                    (case collect (map (\<lambda>obj. drawImage_basis env obj args kwargs) os) of
                       Inl e \<Rightarrow> Inl e
                     | Inr ims \<Rightarrow> stack env im0 ims))))"

text \<open>The key \<^verbatim>\<open>(self._series_idx(), args, tuple(sorted(kwargs.items())))\<close>.\<close>

definition Series_key :: "('i, 'b, 'c) series_self \<Rightarrow> 'a list \<Rightarrow> (string \<times> 'a) list \<Rightarrow>
    error + ('i \<times> 'a list \<times> (string \<times> 'a) list)" where
  "Series_key self args kwargs =
     (case series_idx self of Inl e \<Rightarrow> Inl e | Inr i \<Rightarrow> Inr (i, args, sorted_items kwargs))"

text \<open>The first two lines of \<^verbatim>\<open>Series.drawImage\<close>: the key and the table.\<close>

definition Series_basisCube :: "('b, 'a, 'c, 'im, 't) numerics \<Rightarrow> ('i, 'b, 'c) series_self \<Rightarrow>
    'a list \<Rightarrow> (string \<times> 'a) list \<Rightarrow> ('i \<times> 'a list \<times> (string \<times> 'a) list, 't) Series_cls \<Rightarrow>
    error + ('t option \<times> ('i \<times> 'a list \<times> (string \<times> 'a) list, 't) Series_cls)" where
  "Series_basisCube env self args kwargs s =
     (case Series_key self args kwargs of Inl e \<Rightarrow> Inl e
      | Inr key \<Rightarrow>
          basisCube (draw_cube env (getBasisFuncs self) args (sorted_items kwargs)) key s)"

text \<open>
  \<^verbatim>\<open>Series.drawImage(self, *args, **kwargs)\<close>. Unpacking \<^verbatim>\<open>cube, shape\<close> raises
  TypeError if the cache returned \<^verbatim>\<open>None\<close>.
\<close>

definition Series_drawImage :: "('b, 'a, 'c, 'im, 't) numerics \<Rightarrow> ('i, 'b, 'c) series_self \<Rightarrow>
    'a list \<Rightarrow> (string \<times> 'a) list \<Rightarrow> ('i \<times> 'a list \<times> (string \<times> 'a) list, 't) Series_cls \<Rightarrow>
    error + ('im \<times> ('i \<times> 'a list \<times> (string \<times> 'a) list, 't) Series_cls)" where
  "Series_drawImage env self args kwargs s =
     (case Series_basisCube env self args kwargs s of Inl e \<Rightarrow> Inl e
      | Inr (res, s') \<Rightarrow>
          (case res of None \<Rightarrow> Inl (TypeError ''NoneType object is not iterable'')
           | Some table \<Rightarrow>
               (case getCoeffs self of Inl e \<Rightarrow> Inl e
                | Inr coeffs \<Rightarrow>
                    (case dot env coeffs table of Inl e \<Rightarrow> Inl e | Inr im \<Rightarrow> Inr (im, s')))))"

section \<open>\<^verbatim>\<open>GSObject.drawImage\<close> (gsobject.py)\<close>

text \<open>
  Python floats are modelled as real numbers. A profile is kept as the expression
  that builds it: \<open>Profile p\<close> is a given profile, \<open>ToImage w p\<close> is
  \<^verbatim>\<open>local_wcs.toImage(p)\<close>, \<open>ConvolvePixel rs p\<close> is
  \<^verbatim>\<open>galsim.Convolve(p, galsim.Pixel(scale=1.0), real_space=rs)\<close>, \<open>Shift dx dy p\<close> is
  \<^verbatim>\<open>p.shift(PositionD(dx, dy))\<close> and \<open>ScaleFlux f p\<close> is \<^verbatim>\<open>p * f\<close>.
\<close>

datatype ('p, 'w) prof =
    Profile 'p
  | ToImage 'w "('p, 'w) prof"
  | ConvolvePixel "bool option" "('p, 'w) prof"
  | Shift real real "('p, 'w) prof"
  | ScaleFlux real "('p, 'w) prof"

text \<open>\<^verbatim>\<open>BoundsI\<close>: undefined, or the four limits.\<close>

datatype boundsI = Undefined | BoundsI (xmin: int) (xmax: int) (ymin: int) (ymax: int)

fun isDefined :: "boundsI \<Rightarrow> bool" where
  "isDefined Undefined = False"
| "isDefined (BoundsI x0 x1 y0 y1) = True"

text \<open>
  What \<^verbatim>\<open>drawImage\<close> asks of a WCS object: whether it is a \<^verbatim>\<open>BaseWCS\<close> instance,
  \<^verbatim>\<open>isUniform()\<close>, \<^verbatim>\<open>isPixelScale()\<close>, its \<^verbatim>\<open>scale\<close>, and an identity for the rest.
\<close>

record wcs =
  isBaseWCS :: bool
  isUniform :: bool
  isPixelScale :: bool
  wcs_scale :: real
  wcs_id :: nat

definition PixelScale :: "real \<Rightarrow> wcs" where
  "PixelScale s =
     \<lparr>isBaseWCS = True, isUniform = True, isPixelScale = True, wcs_scale = s, wcs_id = 0\<rparr>"

text \<open>An \<^verbatim>\<open>Image\<close>: bounds, wcs, pixel values, and the \<^verbatim>\<open>added_flux\<close> attribute.\<close>

record pyimage =
  im_bounds :: boundsI
  im_wcs :: "wcs option"
  im_dtype :: "nat option"
  im_array :: "int \<times> int \<Rightarrow> real"
  added_flux :: "real option"

text \<open>The \<^verbatim>\<open>image\<close> argument: an \<^verbatim>\<open>Image\<close>, or some other object.\<close>

datatype image_arg = NotAnImage | Image pyimage

text \<open>The \<^verbatim>\<open>rng\<close> argument: a \<^verbatim>\<open>BaseDeviate\<close> (by its seed state), or some other object.\<close>

datatype rng_arg = BaseDeviate nat | NotADeviate

text \<open>\<^verbatim>\<open>UniformDeviate()\<close> seeded from the time, or \<^verbatim>\<open>UniformDeviate(rng)\<close>.\<close>

datatype uniform_deviate = TimeSeeded | UniformDeviate nat

text \<open>
  The code outside gsobject.py that \<^verbatim>\<open>drawImage\<close> calls: \<^verbatim>\<open>self.nyquistScale()\<close>,
  \<^verbatim>\<open>SBProfile.getGoodImageSize(1.0, wmult)\<close>, \<^verbatim>\<open>bounds.trueCenter()\<close> and
  \<^verbatim>\<open>bounds.center()\<close>, \<^verbatim>\<open>wcs.local(image_pos)\<close>, \<^verbatim>\<open>local_wcs.pixelArea()\<close>, and the two
  renderers \<^verbatim>\<open>SBProfile.draw\<close> and \<^verbatim>\<open>SBProfile.drawShoot\<close>, which return the flux they
  added and the new pixel values (\<^verbatim>\<open>drawShoot\<close> may raise RuntimeError, kept as an error).
\<close>

record ('p, 'w) renderer =
  nyquistScale :: "('p, 'w) prof \<Rightarrow> real"
  getGoodImageSize :: "('p, 'w) prof \<Rightarrow> real \<Rightarrow> int"
  trueCenter :: "boundsI \<Rightarrow> real \<times> real"
  center :: "boundsI \<Rightarrow> int \<times> int"
  local_wcs_of :: "wcs \<Rightarrow> (real \<times> real) option \<Rightarrow> 'w"
  pixelArea :: "'w \<Rightarrow> real"
  draw :: "('p, 'w) prof \<Rightarrow> (int \<times> int \<Rightarrow> real) \<Rightarrow> boundsI \<Rightarrow> real \<Rightarrow> real \<times> (int \<times> int \<Rightarrow> real)"
  drawShoot :: "('p, 'w) prof \<Rightarrow> (int \<times> int \<Rightarrow> real) \<Rightarrow> boundsI \<Rightarrow> real \<Rightarrow> uniform_deviate \<Rightarrow>
     real \<Rightarrow> bool \<Rightarrow> bool \<Rightarrow> error + real \<times> (int \<times> int \<Rightarrow> real)"

text \<open>\<^verbatim>\<open>galsim.Image(bounds=..., dtype=...)\<close> and \<^verbatim>\<open>galsim.Image(nx, ny, dtype=...)\<close>: zeros.\<close>

definition new_Image :: "boundsI \<Rightarrow> nat option \<Rightarrow> pyimage" where
  "new_Image b dt =
     \<lparr>im_bounds = b, im_wcs = None, im_dtype = dt, im_array = (\<lambda>_. 0), added_flux = None\<rparr>"

text \<open>\<^verbatim>\<open>GSObject._setup_image\<close>.\<close>

definition setup_image :: "('p, 'w) renderer \<Rightarrow> ('p, 'w) prof \<Rightarrow> pyimage option \<Rightarrow>
    int option \<Rightarrow> int option \<Rightarrow> boundsI option \<Rightarrow> real \<Rightarrow> bool \<Rightarrow> nat option \<Rightarrow>
    error + pyimage" where
  "setup_image env self img nx ny bounds wmult add_to_image dtype =
     (if \<not> Option.is_none img \<and> bounds \<noteq> None then
        Inl (ValueError ''Cannot provide bounds if image is provided'')
      else if \<not> Option.is_none img \<and> (nx \<noteq> None \<or> ny \<noteq> None) then
        Inl (ValueError ''Cannot provide nx,ny if image is provided'')
      else if \<not> Option.is_none img \<and> dtype \<noteq> None then
        Inl (ValueError ''Cannot specify dtype if image is provided'')
      else
        (case img of
           None \<Rightarrow>
             if add_to_image then Inl (ValueError ''Cannot add_to_image if image is None'')
             else
               (case bounds of
                  Some b \<Rightarrow>
                    if nx \<noteq> None \<or> ny \<noteq> None then
                      Inl (ValueError ''Cannot set both bounds and (nx, ny)'')
                    else Inr (new_Image b dtype)
                | None \<Rightarrow>
                    if nx \<noteq> None \<or> ny \<noteq> None then
                      (case (nx, ny) of
                         (Some x, Some y) \<Rightarrow> Inr (new_Image (BoundsI 1 x 1 y) dtype)
                       | _ \<Rightarrow> Inl (ValueError ''Must set either both or neither of nx, ny''))
                    else
                      (let N = getGoodImageSize env self wmult
                       in Inr (new_Image (BoundsI 1 N 1 N) dtype)))
         | Some im \<Rightarrow>
             if \<not> isDefined (im_bounds im) then
               if add_to_image then
                 Inl (ValueError ''Cannot add_to_image if image bounds are not defined'')
               else
                 (let N = getGoodImageSize env self wmult
                  in Inr (im\<lparr>im_bounds := BoundsI 1 N 1 N, im_array := (\<lambda>_. 0)\<rparr>))
             else if \<not> add_to_image then Inr (im\<lparr>im_array := (\<lambda>_. 0)\<rparr>)
             else Inr im))"

text \<open>\<^verbatim>\<open>GSObject._local_wcs\<close>.\<close>

definition local_wcs :: "('p, 'w) renderer \<Rightarrow> wcs \<Rightarrow> pyimage option \<Rightarrow> real \<times> real \<Rightarrow> bool \<Rightarrow>
    error + 'w" where
  "local_wcs env w img offset use_true_center =
     (if isUniform w then Inr (local_wcs_of env w None)
      else
        (case img of
           None \<Rightarrow> Inl (ValueError ''Cannot provide non-local wcs when image is None'')
         | Some im \<Rightarrow>
             if \<not> isDefined (im_bounds im) then
               Inl (ValueError ''Cannot provide non-local wcs when image has undefined bounds'')
             else
               (let obj_cen =
                      (if use_true_center then trueCenter env (im_bounds im)
                       else (real_of_int (fst (center env (im_bounds im))),
                             real_of_int (snd (center env (im_bounds im)))));
                    obj_cen = (fst obj_cen + fst offset, snd obj_cen + snd offset)
                in Inr (local_wcs_of env w (Some obj_cen)))))"

text \<open>\<^verbatim>\<open>GSObject._parse_offset\<close>, for an offset that is \<^verbatim>\<open>None\<close> or a position.\<close>

definition parse_offset :: "(real \<times> real) option \<Rightarrow> real \<times> real" where
  "parse_offset offset = (case offset of None \<Rightarrow> (0, 0) | Some p \<Rightarrow> p)"

text \<open>
  \<^verbatim>\<open>GSObject._get_shape\<close>; the shape is numpy's \<^verbatim>\<open>(rows, columns)\<close>, that is (y, x).
\<close>

definition bounds_shape :: "boundsI \<Rightarrow> int \<times> int" where
  "bounds_shape b = (ymax b - ymin b + 1, xmax b - xmin b + 1)"

definition get_shape :: "pyimage option \<Rightarrow> int option \<Rightarrow> int option \<Rightarrow> boundsI option \<Rightarrow>
    int \<times> int" where
  "get_shape img nx ny bounds =
     (case img of
        Some im \<Rightarrow>
          if isDefined (im_bounds im) then bounds_shape (im_bounds im)
          else
            (case (nx, ny) of
               (Some x, Some y) \<Rightarrow> (y, x)
             | _ \<Rightarrow>
                 (case bounds of
                    Some b \<Rightarrow> if isDefined b then bounds_shape b else (0, 0)
                  | None \<Rightarrow> (0, 0)))
      | None \<Rightarrow>
          (case (nx, ny) of
             (Some x, Some y) \<Rightarrow> (y, x)
           | _ \<Rightarrow>
               (case bounds of
                  Some b \<Rightarrow> if isDefined b then bounds_shape b else (0, 0)
                | None \<Rightarrow> (0, 0))))"

text \<open>\<^verbatim>\<open>GSObject._fix_center\<close>.\<close>

definition fix_center :: "('p, 'w) prof \<Rightarrow> int \<times> int \<Rightarrow> real \<times> real \<Rightarrow> bool \<Rightarrow> bool \<Rightarrow>
    ('p, 'w) prof" where
  "fix_center self shape offset use_true_center reverse =
     (let offset =
            (if use_true_center then
               (let dx = fst offset; dy = snd offset;
                    dx = (if snd shape mod 2 = 0 then dx - 0.5 else dx);
                    dy = (if fst shape mod 2 = 0 then dy - 0.5 else dy)
                in (dx, dy))
             else offset);
          offset = (if reverse then (- fst offset, - snd offset) else offset)
      in if offset = (0, 0) then self else Shift (fst offset) (snd offset) self)"

text \<open>\<^verbatim>\<open>GSObject._determine_wcs\<close> with \<^verbatim>\<open>default_wcs=None\<close>.\<close>

definition determine_wcs :: "('p, 'w) renderer \<Rightarrow> ('p, 'w) prof \<Rightarrow> real option \<Rightarrow> wcs option \<Rightarrow>
    pyimage option \<Rightarrow> error + wcs" where
  "determine_wcs env self scale w img =
     (case
        (case w of
           Some w' \<Rightarrow>
             if scale \<noteq> None then Inl (ValueError ''Cannot provide both wcs and scale'')
             else if \<not> isUniform w' \<and> Option.is_none img then
               Inl (ValueError ''Cannot provide non-local wcs when image is None'')
             else if \<not> isUniform w' \<and> \<not> isDefined (im_bounds (the img)) then
               Inl (ValueError ''Cannot provide non-local wcs when image has undefined bounds'')
             else if \<not> isBaseWCS w' then Inl (TypeError ''wcs must be a BaseWCS instance'')
             else Inr (Some w')
         | None \<Rightarrow>
             (case scale of
                Some s \<Rightarrow> Inr (Some (PixelScale s))
              | None \<Rightarrow>
                  (case img of
                     Some im \<Rightarrow> Inr (im_wcs im)
                   | None \<Rightarrow> Inr None)))
      of
        Inl e \<Rightarrow> Inl e
      | Inr None \<Rightarrow> Inr (PixelScale (nyquistScale env self))
      | Inr (Some w') \<Rightarrow>
          if isPixelScale w' \<and> wcs_scale w' \<le> 0 then Inr (PixelScale (nyquistScale env self))
          else Inr w')"

text \<open>The arguments of \<^verbatim>\<open>drawImage\<close>, with \<open>None\<close> for Python's \<^verbatim>\<open>None\<close>.\<close>

record drawImage_args =
  image :: "image_arg option"
  nx :: "int option"
  ny :: "int option"
  bounds :: "boundsI option"
  scale :: "real option"
  wcs :: "wcs option"
  dtype :: "nat option"
  method_name :: string
  area :: real
  exptime :: real
  gain :: real
  add_to_image :: bool
  use_true_center :: bool
  offset :: "(real \<times> real) option"
  n_photons :: real
  rng :: "rng_arg option"
  max_extra_noise :: real
  poisson_flux :: "bool option"
  setup_only :: bool
  dx :: "real option"
  wmult :: "real option"

text \<open>The defaults of the signature.\<close>

definition default_args :: drawImage_args where
  "default_args =
     \<lparr>image = None, nx = None, ny = None, bounds = None, scale = None, wcs = None,
      dtype = None, method_name = ''auto'', area = 1, exptime = 1, gain = 1, add_to_image = False,
      use_true_center = True, offset = None, n_photons = 0, rng = None, max_extra_noise = 0,
      poisson_flux = None, setup_only = False, dx = None, wmult = None\<rparr>"

definition valid_methods :: "string list" where
  "valid_methods = [''auto'', ''fft'', ''real_space'', ''phot'', ''no_pixel'', ''sb'']"

text \<open>
  Lines 1279-1319 of \<^verbatim>\<open>drawImage\<close>: the checks of the photon-shooting arguments.
  For \<^verbatim>\<open>method='phot'\<close> the result is the \<^verbatim>\<open>uniform_deviate\<close> and the resolved
  \<^verbatim>\<open>poisson_flux\<close>; for the other methods these variables stay unbound.
\<close>

definition phot_checks :: "drawImage_args \<Rightarrow> error + (uniform_deviate option \<times> bool option)" where
  "phot_checks a =
     (if method_name a = ''phot'' then
        if n_photons a < 0 then Inl (ValueError ''Invalid n_photons < 0.'')
        else
          (let pf = (case poisson_flux a of None \<Rightarrow> n_photons a = 0 | Some b \<Rightarrow> b)
           in case rng a of
                None \<Rightarrow> Inr (Some TimeSeeded, Some pf)
              | Some (BaseDeviate r) \<Rightarrow> Inr (Some (UniformDeviate r), Some pf)
              | Some NotADeviate \<Rightarrow> Inl (TypeError ''The rng provided is not a BaseDeviate''))
      else if n_photons a \<noteq> 0 then
        Inl (ValueError ''n_photons is only relevant for method=phot'')
      else if rng a \<noteq> None then Inl (ValueError ''rng is only relevant for method=phot'')
      else if max_extra_noise a \<noteq> 0 then
        Inl (ValueError ''max_extra_noise is only relevant for method=phot'')
      else if poisson_flux a \<noteq> None then
        Inl (ValueError ''poisson_flux is only relevant for method=phot'')
      else Inr (None, None))"

text \<open>
  The profile in image coordinates, before centering (lines 1349-1359): the pixel is
  convolved in for the methods auto, fft and real_space.
\<close>

definition image_profile :: "string \<Rightarrow> 'w \<Rightarrow> ('p, 'w) prof \<Rightarrow> ('p, 'w) prof" where
  "image_profile m lw self =
     (let prof = ToImage lw self
      in if m \<in> set [''auto'', ''fft'', ''real_space''] then
           ConvolvePixel (if m = ''auto'' then None else if m = ''fft'' then Some False else Some True)
             prof
         else prof)"

text \<open>
  The first lines of \<^verbatim>\<open>drawImage\<close>: the obsolete \<^verbatim>\<open>dx\<close> stands in for a missing
  \<^verbatim>\<open>scale\<close>, \<^verbatim>\<open>wmult\<close> defaults to 1, and \<^verbatim>\<open>image\<close> must be an \<^verbatim>\<open>Image\<close> if given.
\<close>

definition effective_scale :: "drawImage_args \<Rightarrow> real option" where
  "effective_scale a = (if dx a \<noteq> None \<and> scale a = None then dx a else scale a)"

definition effective_wmult :: "drawImage_args \<Rightarrow> real" where
  "effective_wmult a = (case wmult a of Some w \<Rightarrow> w | None \<Rightarrow> 1)"

definition given_image :: "drawImage_args \<Rightarrow> error + pyimage option" where
  "given_image a =
     (case image a of
        None \<Rightarrow> Inr None
      | Some NotAnImage \<Rightarrow> Inl (ValueError ''image is not an Image instance'')
      | Some (Image im) \<Rightarrow> Inr (Some im))"

text \<open>
  \<^verbatim>\<open>drawImage\<close> up to the test of \<^verbatim>\<open>setup_only\<close> (lines 1242-1367). The warnings are
  not modelled, and neither is \<^verbatim>\<open>image.wcs = None\<close> inside \<^verbatim>\<open>_determine_wcs\<close>, which
  line 1367 overwrites. The result is the centered profile, the image, the local WCS,
  the photon-shooting variables and \<^verbatim>\<open>wmult\<close>.
\<close>

definition drawImage_setup :: "('p, 'w) renderer \<Rightarrow> ('p, 'w) prof \<Rightarrow> drawImage_args \<Rightarrow>
    error + (('p, 'w) prof \<times> pyimage \<times> 'w \<times> uniform_deviate option \<times> bool option \<times> real)" where
  "drawImage_setup env self a =
     (case given_image a of Inl e \<Rightarrow> Inl e
      | Inr img \<Rightarrow>
      if gain a \<le> 0 then Inl (ValueError ''Invalid gain <= 0.'')
      else if area a \<le> 0 then Inl (ValueError ''Invalid area <= 0.'')
      else if exptime a \<le> 0 then Inl (ValueError ''Invalid exptime <= 0.'')
      else if method_name a \<notin> set valid_methods then Inl (ValueError ''Invalid method name'')
      else
      case phot_checks a of Inl e \<Rightarrow> Inl e
      | Inr (uniform_deviate, poisson_flux') \<Rightarrow>
      if effective_scale a = None \<and> wcs a = None \<and>
         (nx a \<noteq> None \<or> ny a \<noteq> None \<or> bounds a \<noteq> None) then
        Inl (ValueError ''Must provide scale if providing nx,ny or bounds'')
      else
      case determine_wcs env self (effective_scale a) (wcs a) img of Inl e \<Rightarrow> Inl e
      | Inr w \<Rightarrow>
      case local_wcs env w img (parse_offset (offset a)) (use_true_center a) of Inl e \<Rightarrow> Inl e
      | Inr lw \<Rightarrow>
      let prof = image_profile (method_name a) lw self;
          shape = get_shape img (nx a) (ny a) (bounds a);
          prof = fix_center prof shape (parse_offset (offset a)) (use_true_center a) False
      in
      case setup_image env prof img (nx a) (ny a) (bounds a) (effective_wmult a) (add_to_image a)
             (dtype a) of
        Inl e \<Rightarrow> Inl e
      | Inr im \<Rightarrow>
          Inr (prof, im\<lparr>im_wcs := Some w\<rparr>, lw, uniform_deviate, poisson_flux', effective_wmult a))"

text \<open>
  \<^verbatim>\<open>GSObject.drawImage\<close>. The renderers get the pixel values and the bounds of the
  image (the source passes a view of the image with its center moved to (0,0), which
  shares the pixels). \<^verbatim>\<open>flux_scale /= local_wcs.pixelArea()\<close> divides floats, which
  raises on zero.
\<close>

definition drawImage :: "('p, 'w) renderer \<Rightarrow> ('p, 'w) prof \<Rightarrow> drawImage_args \<Rightarrow>
    error + pyimage" where
  "drawImage env self a =
     (case drawImage_setup env self a of Inl e \<Rightarrow> Inl e
      | Inr (prof, im, lw, uniform_deviate, poisson_flux', wmult') \<Rightarrow>
          if setup_only a then Inr (im\<lparr>added_flux := Some 0\<rparr>)
          else
            (let flux_scale = area a * exptime a / gain a in
             if method_name a = ''sb'' \<and> pixelArea env lw = 0 then Inl ZeroDivisionError
             else
             let flux_scale =
                   (if method_name a = ''sb'' then flux_scale / pixelArea env lw else flux_scale);
                 prof = ScaleFlux flux_scale prof
             in
             if method_name a = ''phot'' then
               (case (uniform_deviate, poisson_flux') of
                  (Some ud, Some pf) \<Rightarrow>
                    (case drawShoot env prof (im_array im) (im_bounds im) (n_photons a) ud
                            (max_extra_noise a) pf (add_to_image a) of
                       Inl e \<Rightarrow> Inl e
                     | Inr (added_photons, arr) \<Rightarrow>
                         Inr (im\<lparr>im_array := arr, added_flux := Some (added_photons / flux_scale)\<rparr>))
                | _ \<Rightarrow> Inl UnboundLocalError)
             else
               (case draw env prof (im_array im) (im_bounds im) wmult' of
                  (added_photons, arr) \<Rightarrow>
                    Inr (im\<lparr>im_array := arr, added_flux := Some (added_photons / flux_scale)\<rparr>))))"

text \<open>
  A renderer for evaluating concrete calls: it adds nothing to the image and reports
  the flux 1; every local WCS is the number 0 and has pixel area 1.
\<close>

definition null_renderer :: "(nat, nat) renderer" where
  "null_renderer =
     \<lparr>nyquistScale = (\<lambda>_. 1), getGoodImageSize = (\<lambda>_ _. 32),
      trueCenter = (\<lambda>_. (0, 0)), center = (\<lambda>_. (0, 0)),
      local_wcs_of = (\<lambda>_ _. 0), pixelArea = (\<lambda>_. 1),
      draw = (\<lambda>_ arr _ _. (1, arr)),
      drawShoot = (\<lambda>_ arr _ _ _ _ _ _. Inr (1, arr))\<rparr>"

section \<open>The series classes (series.py)\<close>

subsection \<open>\<^verbatim>\<open>SpergelSeries\<close> and \<^verbatim>\<open>MoffatSeries\<close>\<close>

text \<open>
  The 2 by 2 matrix \<^verbatim>\<open>_A\<close> as (A[0,0], A[0,1], A[1,0], A[1,1]), and the matrix
  product of \<^verbatim>\<open>np.matrix\<close>.
\<close>

type_synonym mat2 = "real \<times> real \<times> real \<times> real"

fun mat_mul :: "mat2 \<Rightarrow> mat2 \<Rightarrow> mat2" where
  "mat_mul (a, b, c, d) (a', b', c', d') =
     (a * a' + b * c', a * b' + b * d', c * a' + d * c', c * b' + d * d')"

datatype series_class = Spergel | Moffat

text \<open>
  The attributes of a \<^verbatim>\<open>SpergelSeries\<close> or \<^verbatim>\<open>MoffatSeries\<close> object (\<open>nu\<close> is
  \<^verbatim>\<open>beta\<close> for a Moffat). \<^verbatim>\<open>_A\<close> refers to a mutable matrix object, so it is an
  address. The attributes \<^verbatim>\<open>ellip\<close>, \<^verbatim>\<open>phi0\<close> and \<^verbatim>\<open>Delta\<close> exist only after
  \<^verbatim>\<open>_decomposeA\<close> has run: \<open>None\<close> means that the attribute is absent.
\<close>

record series_obj =
  cls :: series_class
  nu :: real
  jmax :: int
  dlnr :: real
  scale_radius :: real
  flux :: real
  gsparams :: "nat option"
  A_ref :: nat
  ellip :: "real option"
  phi0 :: "real option"
  Delta :: "real option"

text \<open>
  The parts of a plain profile or of a series that can stand in a
  \<^verbatim>\<open>SeriesConvolution\<close>: a \<^verbatim>\<open>GSObject\<close> (named by its identity), a Spergel or Moffat
  series (by the address of its object), or a \<^verbatim>\<open>LinearOpticalSeries\<close>, which never
  changes after its construction and is kept by value.
\<close>

record optical =
  lam_over_diam :: "real option"
  opt_flux :: real
  aberrations :: "real list"
  realcoeffs :: "real list"
  imagcoeffs :: "real list"
  realindices :: "(int \<times> int) list"
  imagindices :: "(int \<times> int) list"
  coeffs :: "real list"
  indices :: "((int \<times> int) \<times> (int \<times> int)) list"

datatype 'g series =
    GSObject 'g
  | ParamSeries nat
  | LinearOpticalSeries optical

text \<open>
  A Python object given to \<^verbatim>\<open>SeriesConvolution\<close>: one of the above, or a
  \<^verbatim>\<open>SeriesConvolution\<close> with its \<^verbatim>\<open>objlist\<close> and \<^verbatim>\<open>gsparams\<close>.
\<close>

datatype 'g pyobj =
    Single "'g series"
  | SeriesConvolution (objlist: "'g series list") (conv_gsparams: "nat option")

text \<open>
  The heap of the series objects and of their matrices, and the patches: for a
  \<^verbatim>\<open>GSObject\<close> that \<^verbatim>\<open>SeriesConvolution.__init__\<close> has given the attributes
  \<^verbatim>\<open>_getCoeffs\<close>, \<^verbatim>\<open>_getBasisFuncs\<close> and \<^verbatim>\<open>_series_idx\<close>, the value of the variable
  \<^verbatim>\<open>obj\<close> that these lambdas refer to.
\<close>

record 'g world =
  objs :: "nat \<Rightarrow> series_obj"
  nobj :: nat
  mats :: "nat \<Rightarrow> mat2"
  nmat :: nat
  patch :: "'g \<Rightarrow> 'g series option"

text \<open>
  \<^verbatim>\<open>SpergelSeries.__init__\<close> and \<^verbatim>\<open>MoffatSeries.__init__\<close> with a given
  \<^verbatim>\<open>scale_radius\<close> (\<^verbatim>\<open>np.identity(2)*None\<close> raises TypeError); \<open>lg13\<close> is
  \<^verbatim>\<open>np.log(1.3)\<close>. The call of \<^verbatim>\<open>Series.__init__\<close> acts on the caches only.
\<close>

definition ParamSeries_init :: "series_class \<Rightarrow> real \<Rightarrow> int \<Rightarrow> real option \<Rightarrow> real option \<Rightarrow> real \<Rightarrow>
    nat option \<Rightarrow> 'g world \<Rightarrow> error + (nat \<times> 'g world)" where
  "ParamSeries_init c nu' jmax' dlnr' scale_radius' flux' gsparams' w =
     (case scale_radius' of
        None \<Rightarrow> Inl (TypeError ''unsupported operand type(s) for *: float and NoneType'')
      | Some r \<Rightarrow>
          let m = nmat w; a = nobj w
          in Inr (a, w\<lparr>objs := (objs w)(a :=
                          \<lparr>cls = c, nu = nu', jmax = jmax',
                           dlnr = (case dlnr' of None \<Rightarrow> ln 1.3 | Some x \<Rightarrow> x),
                           scale_radius = r, flux = flux', gsparams = gsparams', A_ref = m,
                           ellip = None, phi0 = None, Delta = None\<rparr>),
                        nobj := Suc a,
                        mats := (mats w)(m := (r, 0, 0, r)),
                        nmat := Suc m\<rparr>))"

text \<open>
  \<^verbatim>\<open>copy\<close>: a new object whose attributes are \<^verbatim>\<open>copy.copy\<close> of the old ones; of
  these only the matrix is mutable, and \<^verbatim>\<open>copy.copy\<close> of a matrix is a new matrix
  with the same entries.
\<close>

definition copy_series :: "nat \<Rightarrow> 'g world \<Rightarrow> nat \<times> 'g world" where
  "copy_series self w =
     (let m = nmat w; a = nobj w
      in (a, w\<lparr>objs := (objs w)(a := (objs w self)\<lparr>A_ref := m\<rparr>),
                nobj := Suc a,
                mats := (mats w)(m := mats w (A_ref (objs w self))),
                nmat := Suc m\<rparr>))"

text \<open>
  \<^verbatim>\<open>_applyMatrix\<close>: \<^verbatim>\<open>ret._A *= J\<close> multiplies the matrix object of the copy in
  place, and \<^verbatim>\<open>del ret.ellip\<close> removes the attribute if it is there.
\<close>

definition applyMatrix :: "nat \<Rightarrow> mat2 \<Rightarrow> 'g world \<Rightarrow> nat \<times> 'g world" where
  "applyMatrix self J w =
     (case copy_series self w of
        (ret, w1) \<Rightarrow>
          let m = A_ref (objs w1 ret);
              w2 = w1\<lparr>mats := (mats w1)(m := mat_mul (mats w1 m) J)\<rparr>;
              w3 = w2\<lparr>objs := (objs w2)(ret := (objs w2 ret)\<lparr>ellip := None\<rparr>)\<rparr>
          in (ret, w3))"

definition dilate :: "nat \<Rightarrow> real \<Rightarrow> 'g world \<Rightarrow> nat \<times> 'g world" where
  "dilate self s w = applyMatrix self (s, 0, 0, s) w"

definition rotate :: "nat \<Rightarrow> real \<Rightarrow> 'g world \<Rightarrow> nat \<times> 'g world" where
  "rotate self theta_rad w =
     applyMatrix self (cos theta_rad, - sin theta_rad, sin theta_rad, cos theta_rad) w"

text \<open>
  \<^verbatim>\<open>shear(*args, **kwargs)\<close>. An argument is a \<^verbatim>\<open>galsim.Shear\<close>, known by the matrix
  \<^verbatim>\<open>shear._shear.getMatrix()\<close>, or something else; \<open>mkShear\<close> is \<^verbatim>\<open>galsim.Shear(**kwargs)\<close>.
\<close>

datatype shear_arg = ShearObj mat2 | NotAShear

definition shear :: "((string \<times> shear_arg) list \<Rightarrow> error + mat2) \<Rightarrow> nat \<Rightarrow> shear_arg list \<Rightarrow>
    (string \<times> shear_arg) list \<Rightarrow> 'g world \<Rightarrow> error + (nat \<times> 'g world)" where
  "shear mkShear self args kwargs w =
     (case
        (if length args = 1 then
           if kwargs \<noteq> [] then Inl (TypeError ''Gave both unnamed and named arguments!'')
           else (case hd args of
                   NotAShear \<Rightarrow> Inl (TypeError ''Unnamed argument is not a Shear!'')
                 | ShearObj m \<Rightarrow> Inr m)
         else if length args > 1 then Inl (TypeError ''Too many unnamed arguments!'')
         else
           (case map_of kwargs ''shear'' of
              Some s \<Rightarrow>
                if filter (\<lambda>kv. fst kv \<noteq> ''shear'') kwargs \<noteq> [] then
                  Inl (TypeError ''Too many kwargs provided!'')
                else (case s of
                        NotAShear \<Rightarrow> Inl (AttributeError ''_shear'')
                      | ShearObj m \<Rightarrow> Inr m)
            | None \<Rightarrow> mkShear kwargs))
      of Inl e \<Rightarrow> Inl e
       | Inr m \<Rightarrow> Inr (applyMatrix self m w))"

text \<open>
  \<^verbatim>\<open>math.atan2\<close>, and \<^verbatim>\<open>np.modf\<close>, whose two parts carry the sign of the argument.
\<close>

definition atan2 :: "real \<Rightarrow> real \<Rightarrow> real" where
  "atan2 y x =
     (if 0 < x then arctan (y / x)
      else if x < 0 then (if 0 \<le> y then arctan (y / x) + pi else arctan (y / x) - pi)
      else if 0 < y then pi / 2
      else if y < 0 then - pi / 2
      else 0)"

definition modf :: "real \<Rightarrow> real \<times> real" where
  "modf x =
     (let i = (if 0 \<le> x then real_of_int \<lfloor>x\<rfloor> else real_of_int \<lceil>x\<rceil>) in (x - i, i))"

text \<open>
  The computation inside \<^verbatim>\<open>_decomposeA\<close>, from the matrix and \<^verbatim>\<open>dlnr\<close>, up to
  \<open>r0\<close>. \<open>e1\<close> is \<^verbatim>\<open>galsim.Shear(eta1=eta).e1\<close>. \<^verbatim>\<open>math.sqrt\<close> of a negative number
  raises ValueError. Where the float computation divides by zero or leaves the reals
  (a singular matrix, \<open>1 - ellip\<^sup>2 \<le> 0\<close>, \<open>dlnr = 0\<close>) numpy returns inf or nan; the
  model, which has real numbers only, returns FloatingPointError there.
\<close>

definition decompose_r0 :: "(real \<Rightarrow> real) \<Rightarrow> mat2 \<Rightarrow> error + (real \<times> real \<times> real)" where
  "decompose_r0 e1 A =
     (case A of
        (a, b, c, d) \<Rightarrow>
          if a * d - b * c < 0 then Inl (ValueError ''math domain error'')
          else
            let mu = sqrt (a * d - b * c);
                phi0 = atan2 (c - b) (a + d);
                beta = atan2 (b + c) (a - d) + phi0
            in if mu = 0 then Inl FloatingPointError
               else
                 let eta = arcosh (0.5 * ((a - d)\<^sup>2 + (b + c)\<^sup>2) / mu\<^sup>2 + 1.0);
                     ellip = e1 eta
                 in if 1.0 - ellip\<^sup>2 \<le> 0 then Inl FloatingPointError
                    else Inr (ellip, phi0 + beta / 2, mu / sqrt (sqrt (1.0 - ellip\<^sup>2))))"

text \<open>
  The index of the nearest grid point: \<^verbatim>\<open>f, i = np.modf(np.log(r0)/self.dlnr)\<close> and
  the two corrections.
\<close>

definition nearest_i :: "real \<Rightarrow> real \<Rightarrow> real" where
  "nearest_i r0 dlnr' =
     (case modf (ln r0 / dlnr') of
        (f, i) \<Rightarrow>
          let (f, i) = (if f < 0.0 then (f + 1.0, i - 1) else (f, i));
              (f, i) = (if f > 0.5 then (f - 1.0, i + 1) else (f, i))
          in i)"

definition decompose :: "(real \<Rightarrow> real) \<Rightarrow> series_class \<Rightarrow> real \<Rightarrow> mat2 \<Rightarrow>
    error + (real \<times> real \<times> real \<times> real)" where
  "decompose e1 c dlnr' A =
     (case decompose_r0 e1 A of Inl e \<Rightarrow> Inl e
      | Inr (ellip', phi0', r0) \<Rightarrow>
          if dlnr' = 0 then Inl FloatingPointError
          else
            let i = nearest_i r0 dlnr';
                scale_radius' = exp (dlnr' * i);
                Delta' = (case c of Spergel \<Rightarrow> 1.0 - (r0 / scale_radius')\<^sup>2
                          | Moffat \<Rightarrow> 1.0 - (scale_radius' / r0)\<^sup>2)
            in Inr (ellip', phi0', scale_radius', Delta'))"

text \<open>
  \<^verbatim>\<open>_decomposeA\<close>: computed and stored when the attribute \<^verbatim>\<open>ellip\<close> is absent,
  otherwise read from the attributes (an absent \<^verbatim>\<open>phi0\<close> or \<^verbatim>\<open>Delta\<close> would raise
  AttributeError).
\<close>

definition decomposeA :: "(real \<Rightarrow> real) \<Rightarrow> nat \<Rightarrow> 'g world \<Rightarrow>
    error + ((real \<times> real \<times> real \<times> real) \<times> 'g world)" where
  "decomposeA e1 self w =
     (let ob = objs w self in
      case ellip ob of
        None \<Rightarrow>
          (case decompose e1 (cls ob) (dlnr ob) (mats w (A_ref ob)) of Inl e \<Rightarrow> Inl e
           | Inr (el, ph, sr, De) \<Rightarrow>
               Inr ((el, ph, sr, De),
                    w\<lparr>objs := (objs w)(self := ob\<lparr>ellip := Some el, phi0 := Some ph,
                                                   scale_radius := sr, Delta := Some De\<rparr>)\<rparr>))
      | Some el \<Rightarrow>
          (case (phi0 ob, Delta ob) of
             (Some ph, Some De) \<Rightarrow> Inr ((el, ph, scale_radius ob, De), w)
           | _ \<Rightarrow> Inl (AttributeError ''phi0'')))"

text \<open>
  The invariant of the heap of series objects: every object's matrix is allocated,
  and a decomposition that is present on an object is the decomposition of the
  object's present matrix.
\<close>

definition cached_ok :: "(real \<Rightarrow> real) \<Rightarrow> 'g world \<Rightarrow> nat \<Rightarrow> bool" where
  "cached_ok e1 w a =
     (let ob = objs w a in
      case ellip ob of
        None \<Rightarrow> True
      | Some el \<Rightarrow>
          (case (phi0 ob, Delta ob) of
             (Some ph, Some De) \<Rightarrow>
               decompose e1 (cls ob) (dlnr ob) (mats w (A_ref ob)) = Inr (el, ph, scale_radius ob, De)
           | _ \<Rightarrow> False))"

definition series_inv :: "(real \<Rightarrow> real) \<Rightarrow> 'g world \<Rightarrow> bool" where
  "series_inv e1 w = (\<forall>a < nobj w. A_ref (objs w a) < nmat w \<and> cached_ok e1 w a)"

definition world0 :: "'g world" where
  "world0 =
     \<lparr>objs = (\<lambda>_. \<lparr>cls = Spergel, nu = 0, jmax = 0, dlnr = 0, scale_radius = 0, flux = 0,
                    gsparams = None, A_ref = 0, ellip = None, phi0 = None, Delta = None\<rparr>),
      nobj = 0, mats = (\<lambda>_. (0, 0, 0, 0)), nmat = 0, patch = (\<lambda>_. None)\<rparr>"

text \<open>What a transform of \<open>self\<close> must leave as it was.\<close>

definition receiver_unchanged :: "(real \<Rightarrow> real) \<Rightarrow> nat \<Rightarrow> 'g world \<Rightarrow> nat \<Rightarrow> 'g world \<Rightarrow> bool" where
  "receiver_unchanged e1 self w ret w' =
     (ret \<noteq> self \<and> objs w' self = objs w self \<and>
      mats w' (A_ref (objs w' self)) = mats w (A_ref (objs w self)) \<and>
      map_sum id fst (decomposeA e1 self w') = map_sum id fst (decomposeA e1 self w))"

text \<open>
  The heaps that the constructors and methods of the two classes produce from the
  empty heap: \<^verbatim>\<open>__init__\<close>, the three transforms of an existing object, and
  \<^verbatim>\<open>_decomposeA\<close> of an existing object (which \<^verbatim>\<open>_getCoeffs\<close>, \<^verbatim>\<open>_getBasisFuncs\<close> and
  \<^verbatim>\<open>_series_idx\<close> call first).
\<close>

inductive reachable :: "(real \<Rightarrow> real) \<Rightarrow> 'g world \<Rightarrow> bool" for e1 where
  start: "reachable e1 world0"
| init: "reachable e1 w \<Longrightarrow> ParamSeries_init c n j d r f g w = Inr (a, w') \<Longrightarrow> reachable e1 w'"
| dilate: "reachable e1 w \<Longrightarrow> self < nobj w \<Longrightarrow> dilate self s w = (ret, w') \<Longrightarrow> reachable e1 w'"
| rotate: "reachable e1 w \<Longrightarrow> self < nobj w \<Longrightarrow> rotate self t w = (ret, w') \<Longrightarrow> reachable e1 w'"
| shear: "reachable e1 w \<Longrightarrow> self < nobj w \<Longrightarrow> shear mk self args kwargs w = Inr (ret, w') \<Longrightarrow>
     reachable e1 w'"
| decomposeA: "reachable e1 w \<Longrightarrow> self < nobj w \<Longrightarrow> decomposeA e1 self w = Inr (res, w') \<Longrightarrow>
     reachable e1 w'"

text \<open>
  What a transform of \<open>self\<close> by the matrix \<open>J\<close> must give for the object \<open>ret\<close> it
  returns: no cached decomposition, the matrix of \<open>self\<close> times \<open>J\<close>, and a
  \<^verbatim>\<open>_decomposeA\<close> that is the decomposition of that product.
\<close>

definition invalidated :: "(real \<Rightarrow> real) \<Rightarrow> nat \<Rightarrow> mat2 \<Rightarrow> 'g world \<Rightarrow> nat \<Rightarrow> 'g world \<Rightarrow> bool" where
  "invalidated e1 self J w ret w' =
     (ellip (objs w' ret) = None \<and>
      mats w' (A_ref (objs w' ret)) = mat_mul (mats w (A_ref (objs w self))) J \<and>
      map_sum id fst (decomposeA e1 ret w') =
        decompose e1 (cls (objs w self)) (dlnr (objs w self))
          (mat_mul (mats w (A_ref (objs w self))) J))"

text \<open>
  The heap after \<^verbatim>\<open>SpergelSeries(nu=0.5, jmax=2, dlnr=math.log(2), scale_radius=1.0)\<close>,
  for examples.
\<close>

definition series_example :: "nat world" where
  "series_example =
     (case ParamSeries_init Spergel 0.5 2 (Some (ln 2)) (Some 1) 1 None world0 of
        Inr (a, w) \<Rightarrow> w
      | Inl e \<Rightarrow> world0)"
section \<open>Properties of the caches\<close>

lemmas cache_defs =
  Series_init_def Series_cls0_def basisCube_def basisKCube_def hit_def miss_def
  getitem_def setitem_def cached_after_def link_after_def Let_def

text \<open>
  C9 (the two caches are independent lists; a hit in the Fourier-space cache leaves
  every link of the real-space list unchanged). The code does not do this. After
  \<^verbatim>\<open>Series.__init__(maxcache=2)\<close> the real-space list is the links 0 (root), 1, 2 and
  the Fourier-space list is 3 (root), 4, 5. \<^verbatim>\<open>kroot[0] = last\<close> makes link 3 point
  back to link 2 of the real-space list, and the first hit in the Fourier-space cache
  writes the NEXT item of link 2: it was 0 and becomes 3.
\<close>

theorem kcache_hit_writes_real_list:
  "link_after 2 (Inr (Series_init 2 (Series_cls0 :: (nat, nat) Series_cls))) =
     Inr \<lparr>PREV = Some 1, NEXT = Some 0, KEY = Some (Placeholder 2), RESULT = None\<rparr> \<and>
   link_after 2 (basisKCubes [(Inr (7::nat), 10::nat)] (Series_init 2 Series_cls0)) =
     Inr \<lparr>PREV = Some 1, NEXT = Some 0, KEY = Some (Placeholder 2), RESULT = None\<rparr> \<and>
   link_after 2 (basisKCubes [(Inr (7::nat), 10::nat), (Inr 7, 10)] (Series_init 2 Series_cls0)) =
     Inr \<lparr>PREV = Some 1, NEXT = Some 3, KEY = Some (Placeholder 2), RESULT = None\<rparr>"
  by (simp add: cache_defs eval_nat_numeral)





























lemma set_tl_distinct: "distinct xs \<Longrightarrow> xs \<noteq> [] \<Longrightarrow> set (tl xs) = set xs - {hd xs}"
  by (cases xs) auto










section \<open>Properties of \<^verbatim>\<open>Series.drawImage\<close>\<close>










section \<open>Properties of \<^verbatim>\<open>GSObject.drawImage\<close>\<close>





lemma setup_InrD:
  assumes "drawImage_setup env self a = Inr (prof, im, lw, ud, pf, wm)"
  shows "\<exists>img w im0. given_image a = Inr img \<and> 0 < gain a \<and> 0 < area a \<and> 0 < exptime a \<and>
     method_name a \<in> set valid_methods \<and> phot_checks a = Inr (ud, pf) \<and>
     \<not> (effective_scale a = None \<and> wcs a = None \<and> (nx a \<noteq> None \<or> ny a \<noteq> None \<or> bounds a \<noteq> None)) \<and>
     determine_wcs env self (effective_scale a) (wcs a) img = Inr w \<and>
     local_wcs env w img (parse_offset (offset a)) (use_true_center a) = Inr lw \<and>
     prof = fix_center (image_profile (method_name a) lw self) (get_shape img (nx a) (ny a) (bounds a))
              (parse_offset (offset a)) (use_true_center a) False \<and>
     setup_image env prof img (nx a) (ny a) (bounds a) (effective_wmult a) (add_to_image a) (dtype a) = Inr im0 \<and>
     im = im0\<lparr>im_wcs := Some w\<rparr> \<and> wm = effective_wmult a"
  using assms
  by (auto simp: drawImage_setup_def Let_def split: sum.splits if_splits prod.splits)















lemma phot_checks_phot:
  assumes "phot_checks a = Inr (ud, pf)"
  shows "method_name a = ''phot'' \<longrightarrow> (\<exists>u p. ud = Some u \<and> pf = Some p)"
proof (cases "rng a")
  case None
  with assms show ?thesis by (auto simp add: phot_checks_def Let_def split: if_splits)
next
  case (Some r)
  with assms show ?thesis by (cases r) (auto simp add: phot_checks_def Let_def split: if_splits)
qed

text \<open>
  C1. For a call that passes the set-up (a valid call) and is not \<^verbatim>\<open>setup_only\<close>, with
  \<open>flux_scale = area * exptime / gain\<close>, divided by the pixel area of the local WCS
  when the method is sb: the profile given to the renderer is the centered
  image-coordinate profile times \<open>flux_scale\<close>, the pixel values are the ones the
  renderer returns for it, and \<^verbatim>\<open>added_flux\<close> is the flux the renderer reports divided
  by \<open>flux_scale\<close>. With method phot the renderer is \<^verbatim>\<open>drawShoot\<close>, whose exception,
  if any, is passed on.
\<close>

theorem drawImage_flux_scale:
  assumes su: "drawImage_setup env self a = Inr (prof, im, lw, ud, pf, wm)"
    and nso: "\<not> setup_only a" and pa: "method_name a = ''sb'' \<longrightarrow> pixelArea env lw \<noteq> 0"
  shows "let flux_scale = (if method_name a = ''sb'' then area a * exptime a / gain a / pixelArea env lw
                           else area a * exptime a / gain a)
     in (\<exists>shape. prof = fix_center (image_profile (method_name a) lw self) shape
                    (parse_offset (offset a)) (use_true_center a) False) \<and>
        (method_name a \<noteq> ''phot'' \<longrightarrow>
           drawImage env self a =
             Inr (im\<lparr>im_array := snd (draw env (ScaleFlux flux_scale prof) (im_array im) (im_bounds im) wm),
                    added_flux := Some (fst (draw env (ScaleFlux flux_scale prof) (im_array im)
                                               (im_bounds im) wm) / flux_scale)\<rparr>)) \<and>
        (method_name a = ''phot'' \<longrightarrow>
           (\<exists>u p. ud = Some u \<and> pf = Some p \<and>
              drawImage env self a =
                (case drawShoot env (ScaleFlux flux_scale prof) (im_array im) (im_bounds im)
                        (n_photons a) u (max_extra_noise a) p (add_to_image a) of
                   Inl e \<Rightarrow> Inl e
                 | Inr (added_photons, arr) \<Rightarrow>
                     Inr (im\<lparr>im_array := arr, added_flux := Some (added_photons / flux_scale)\<rparr>))))"
proof -
  from setup_InrD[OF su]
  have 1: "\<exists>shape. prof = fix_center (image_profile (method_name a) lw self) shape
                    (parse_offset (offset a)) (use_true_center a) False"
    and pc: "phot_checks a = Inr (ud, pf)"
    by blast+
  have 2: "method_name a = ''phot'' \<longrightarrow> (\<exists>u p. ud = Some u \<and> pf = Some p)"
    using pc by (rule phot_checks_phot)
  show ?thesis
  proof (cases "method_name a = ''phot''")
    case True
    then obtain u p where up: "ud = Some u" "pf = Some p" using 2 by blast
    show ?thesis using True up nso 1
      by (simp add: drawImage_def su Let_def split: sum.splits prod.splits)
  next
    case False
    show ?thesis using False nso pa 1
      by (simp add: drawImage_def su Let_def split: prod.splits)
  qed
qed

theorem drawImage_flux_scale_witness:
  "map_sum id added_flux
     (drawImage null_renderer (Profile 0)
        (default_args\<lparr>nx := Some 4, ny := Some 4, scale := Some 1, area := 10, exptime := 10,
                       gain := 2\<rparr>)) = Inr (Some (1 / 50))"
proof -
  let ?a = "default_args\<lparr>nx := Some 4, ny := Some 4, scale := Some 1, area := 10, exptime := 10,
                       gain := 2\<rparr>"
  have "\<exists>prof im lw ud pf wm. drawImage_setup null_renderer (Profile 0) ?a = Inr (prof, im, lw, ud, pf, wm)"
    by (simp add: drawImage_setup_def default_args_def given_image_def valid_methods_def
        phot_checks_def effective_scale_def determine_wcs_def PixelScale_def local_wcs_def
        null_renderer_def setup_image_def Let_def)
  then obtain prof im lw ud pf wm where
    s: "drawImage_setup null_renderer (Profile 0) ?a = Inr (prof, im, lw, ud, pf, wm)" by blast
  have m: "method_name ?a \<noteq> ''phot''" "method_name ?a \<noteq> ''sb''" "\<not> setup_only ?a"
    by (simp_all add: default_args_def)
  from drawImage_flux_scale[OF s m(3)] m(1,2)
  show ?thesis by (simp add: Let_def null_renderer_def default_args_def)
qed




section \<open>Properties of the series classes\<close>

lemma applyMatrix_eval:
  "applyMatrix self J w =
     (nobj w,
      w\<lparr>objs := (objs w)(nobj w := (objs w self)\<lparr>A_ref := nmat w, ellip := None\<rparr>),
        nobj := Suc (nobj w),
        mats := (mats w)(nmat w := mat_mul (mats w (A_ref (objs w self))) J),
        nmat := Suc (nmat w)\<rparr>)"
  by (simp add: applyMatrix_def copy_series_def Let_def)

lemma applyMatrix_receiver:
  assumes "self < nobj w" "A_ref (objs w self) < nmat w" "applyMatrix self J w = (ret, w')"
  shows "receiver_unchanged e1 self w ret w'"
  using assms
  by (auto simp: applyMatrix_eval receiver_unchanged_def decomposeA_def Let_def
      split: option.splits sum.splits prod.splits)

lemma floor_frac: "0 \<le> x - real_of_int \<lfloor>x\<rfloor>" "x - real_of_int \<lfloor>x\<rfloor> < 1"
  by linarith+

lemma nearest_i_int:
  "\<exists>k::int. nearest_i r0 dl = real_of_int k \<and> \<bar>ln r0 / dl - real_of_int k\<bar> \<le> 1 / 2"
proof -
  define x where "x = ln r0 / dl"
  have fl: "real_of_int \<lfloor>x\<rfloor> \<le> x" "x < real_of_int \<lfloor>x\<rfloor> + 1" by linarith+
  have ce: "real_of_int \<lceil>x\<rceil> - 1 < x" "x \<le> real_of_int \<lceil>x\<rceil>" by linarith+
  show ?thesis
  proof (cases "0 \<le> x")
    case True
    show ?thesis
    proof (cases "x - real_of_int \<lfloor>x\<rfloor> > 1 / 2")
      case gt: True
      have "nearest_i r0 dl = real_of_int (\<lfloor>x\<rfloor> + 1)"
        using True gt fl fl ce by (simp add: nearest_i_def modf_def x_def[symmetric] Let_def; linarith)
      moreover have "\<bar>x - real_of_int (\<lfloor>x\<rfloor> + 1)\<bar> \<le> 1 / 2" using gt fl by simp
      ultimately show ?thesis unfolding x_def by blast
    next
      case le: False
      have "nearest_i r0 dl = real_of_int \<lfloor>x\<rfloor>"
        using True le fl fl ce by (simp add: nearest_i_def modf_def x_def[symmetric] Let_def; linarith)
      moreover have "\<bar>x - real_of_int \<lfloor>x\<rfloor>\<bar> \<le> 1 / 2" using le fl by simp
      ultimately show ?thesis unfolding x_def by blast
    qed
  next
    case False
    show ?thesis
    proof (cases "x - real_of_int \<lceil>x\<rceil> < 0")
      case neg: True
      show ?thesis
      proof (cases "x - real_of_int \<lceil>x\<rceil> + 1 > 1 / 2")
        case gt: True
        have "nearest_i r0 dl = real_of_int \<lceil>x\<rceil>"
          using False neg gt fl ce by (simp add: nearest_i_def modf_def x_def[symmetric] Let_def; linarith)
        moreover have "\<bar>x - real_of_int \<lceil>x\<rceil>\<bar> \<le> 1 / 2" using gt ce by simp
        ultimately show ?thesis unfolding x_def by blast
      next
        case le: False
        have "nearest_i r0 dl = real_of_int (\<lceil>x\<rceil> - 1)"
          using False neg le fl ce by (simp add: nearest_i_def modf_def x_def[symmetric] Let_def; linarith)
        moreover have "\<bar>x - real_of_int (\<lceil>x\<rceil> - 1)\<bar> \<le> 1 / 2" using le ce by simp
        ultimately show ?thesis unfolding x_def by blast
      qed
    next
      case zero: False
      then have eq: "x = real_of_int \<lceil>x\<rceil>" using ce by linarith
      have "nearest_i r0 dl = real_of_int \<lceil>x\<rceil>"
        using False zero eq fl ce by (simp add: nearest_i_def modf_def x_def[symmetric] Let_def; linarith)
      moreover have "\<bar>x - real_of_int \<lceil>x\<rceil>\<bar> \<le> 1 / 2" using eq by simp
      ultimately show ?thesis unfolding x_def by blast
    qed
  qed
qed

lemma decompose_r0_pos: "decompose_r0 e1 A = Inr (el, ph, r0) \<Longrightarrow> 0 < r0"
  by (cases A) (auto simp: decompose_r0_def Let_def split: if_splits intro!: divide_pos_pos)

lemma decompose_grid:
  assumes r: "decompose_r0 e1 A = Inr (el, ph, r0)" and dl: "dl \<noteq> 0"
  shows "\<exists>k::int. decompose e1 c dl A =
       Inr (el, ph, exp (dl * real_of_int k),
            (case c of Spergel \<Rightarrow> 1 - (r0 / exp (dl * real_of_int k))\<^sup>2
             | Moffat \<Rightarrow> 1 - (exp (dl * real_of_int k) / r0)\<^sup>2)) \<and>
     \<bar>ln r0 / dl - real_of_int k\<bar> \<le> 1 / 2 \<and> \<bar>ln (r0 / exp (dl * real_of_int k))\<bar> \<le> \<bar>dl\<bar> / 2"
proof -
  obtain k :: int where k: "nearest_i r0 dl = real_of_int k" "\<bar>ln r0 / dl - real_of_int k\<bar> \<le> 1 / 2"
    using nearest_i_int by blast
  have pos: "0 < r0" using r by (rule decompose_r0_pos)
  have "ln (r0 / exp (dl * real_of_int k)) = dl * (ln r0 / dl - real_of_int k)"
    using pos dl by (simp add: ln_div algebra_simps)
  then have "\<bar>ln (r0 / exp (dl * real_of_int k))\<bar> = \<bar>dl\<bar> * \<bar>ln r0 / dl - real_of_int k\<bar>"
    by (simp add: abs_mult)
  also have "\<dots> \<le> \<bar>dl\<bar> * (1 / 2)" using k(2) by (intro mult_left_mono) auto
  finally have b: "\<bar>ln (r0 / exp (dl * real_of_int k))\<bar> \<le> \<bar>dl\<bar> / 2" by simp
  show ?thesis using r dl k b by (auto simp: decompose_def Let_def split: series_class.splits)
qed

lemma world0_inv: "series_inv e1 world0"
  by (simp add: series_inv_def world0_def)

lemma cached_ok_cong:
  "objs w' a = objs w a \<Longrightarrow> mats w' (A_ref (objs w a)) = mats w (A_ref (objs w a)) \<Longrightarrow>
   cached_ok e1 w' a = cached_ok e1 w a"
  by (simp add: cached_ok_def Let_def cong: option.case_cong prod.case_cong)

lemma cached_ok_None: "ellip (objs w a) = None \<Longrightarrow> cached_ok e1 w a"
  by (simp add: cached_ok_def Let_def)

lemma series_inv_extend:
  assumes inv: "series_inv e1 w"
    and w': "nobj w' = Suc (nobj w)" "nmat w' = Suc (nmat w)"
      "\<And>a. a < nobj w \<Longrightarrow> objs w' a = objs w a" "\<And>m. m < nmat w \<Longrightarrow> mats w' m = mats w m"
      "A_ref (objs w' (nobj w)) = nmat w" "ellip (objs w' (nobj w)) = None"
  shows "series_inv e1 w'"
  unfolding series_inv_def
proof (intro allI impI)
  fix a assume "a < nobj w'"
  then consider "a < nobj w" | "a = nobj w" using w'(1) by linarith
  then show "A_ref (objs w' a) < nmat w' \<and> cached_ok e1 w' a"
  proof cases
    case 1
    then have o: "A_ref (objs w a) < nmat w" "cached_ok e1 w a"
      using inv by (auto simp: series_inv_def)
    have "cached_ok e1 w' a = cached_ok e1 w a"
      by (rule cached_ok_cong) (use 1 o w' in auto)
    then show ?thesis using 1 o w' by simp
  next
    case 2
    then show ?thesis using w' by (simp add: cached_ok_None)
  qed
qed

lemma init_inv:
  assumes "series_inv e1 w" "ParamSeries_init c n j d r f g w = Inr (a, w')"
  shows "series_inv e1 w'"
proof -
  obtain r' where r: "r = Some r'" using assms(2) by (cases r) (auto simp: ParamSeries_init_def)
  show ?thesis
    by (rule series_inv_extend[OF assms(1)])
      (use assms(2) in \<open>auto simp: ParamSeries_init_def r Let_def\<close>)
qed

lemma applyMatrix_inv:
  assumes "series_inv e1 w" "self < nobj w" "applyMatrix self J w = (ret, w')"
  shows "series_inv e1 w'"
  by (rule series_inv_extend[OF assms(1)]) (use assms(2,3) in \<open>auto simp: applyMatrix_eval\<close>)

lemma shear_applyMatrix:
  "shear mk self args kwargs w = Inr (ret, w') \<Longrightarrow> \<exists>J. applyMatrix self J w = (ret, w')"
  by (auto simp: shear_def split: sum.splits)

lemma decomposeA_inv:
  assumes inv: "series_inv e1 w" and a: "a < nobj w" and d: "decomposeA e1 a w = Inr (r, w')"
  shows "series_inv e1 w'"
proof (cases "ellip (objs w a)")
  case (Some el)
  then have "w' = w" using d by (auto simp: decomposeA_def Let_def split: option.splits)
  then show ?thesis using inv by simp
next
  case None
  then obtain el ph sr De where dc: "decompose e1 (cls (objs w a)) (dlnr (objs w a)) (mats w (A_ref (objs w a))) = Inr (el, ph, sr, De)"
    and w': "w' = w\<lparr>objs := (objs w)(a := (objs w a)\<lparr>ellip := Some el, phi0 := Some ph,
                                                   scale_radius := sr, Delta := Some De\<rparr>)\<rparr>"
    using d by (auto simp: decomposeA_def Let_def split: sum.splits)
  show ?thesis
    unfolding series_inv_def
  proof (intro allI impI)
    fix b assume b: "b < nobj w'"
    then have bw: "b < nobj w" by (simp add: w')
    then have o: "A_ref (objs w b) < nmat w" "cached_ok e1 w b" using inv by (auto simp: series_inv_def)
    show "A_ref (objs w' b) < nmat w' \<and> cached_ok e1 w' b"
    proof (cases "b = a")
      case True
      then show ?thesis using o dc by (simp add: w' cached_ok_def Let_def)
    next
      case False
      have "cached_ok e1 w' b = cached_ok e1 w b"
        by (rule cached_ok_cong) (use False in \<open>auto simp: w'\<close>)
      then show ?thesis using False o by (simp add: w')
    qed
  qed
qed

lemma reachable_inv: "reachable e1 w \<Longrightarrow> series_inv e1 w"
proof (induction rule: reachable.induct)
  case start
  show ?case by (rule world0_inv)
next
  case (init w c n j d r f g a w')
  then show ?case by (blast intro: init_inv)
next
  case (dilate w self s ret w')
  then show ?case unfolding dilate_def by (blast intro: applyMatrix_inv)
next
  case (rotate w self t ret w')
  then show ?case unfolding rotate_def by (blast intro: applyMatrix_inv)
next
  case (shear w self mk args kwargs ret w')
  then show ?case by (blast dest: shear_applyMatrix intro: applyMatrix_inv)
next
  case (decomposeA w self res w')
  then show ?case by (blast intro: decomposeA_inv)
qed

lemma decomposeA_fresh:
  assumes inv: "series_inv e1 w" and a: "a < nobj w"
  shows "map_sum id fst (decomposeA e1 a w) =
     decompose e1 (cls (objs w a)) (dlnr (objs w a)) (mats w (A_ref (objs w a)))"
proof (cases "ellip (objs w a)")
  case None
  then show ?thesis by (auto simp: decomposeA_def Let_def split: sum.splits)
next
  case (Some el)
  have "cached_ok e1 w a" using inv a by (simp add: series_inv_def)
  then show ?thesis using Some
    by (auto simp: decomposeA_def cached_ok_def Let_def split: option.splits)
qed

lemma applyMatrix_invalidated:
  assumes inv: "series_inv e1 w" and a: "self < nobj w" and ap: "applyMatrix self J w = (ret, w')"
  shows "invalidated e1 self J w ret w'"
proof -
  have i: "series_inv e1 w'" by (rule applyMatrix_inv[OF inv a ap])
  have f: "ret < nobj w'" "ellip (objs w' ret) = None"
    "mats w' (A_ref (objs w' ret)) = mat_mul (mats w (A_ref (objs w self))) J"
    "cls (objs w' ret) = cls (objs w self)" "dlnr (objs w' ret) = dlnr (objs w self)"
    using ap by (auto simp: applyMatrix_eval)
  show ?thesis using f decomposeA_fresh[OF i f(1)] by (simp add: invalidated_def)
qed

lemmas series_example_defs = series_example_def ParamSeries_init_def world0_def Let_def

lemma series_example_reachable: "reachable e1 series_example"
proof -
  have "ParamSeries_init Spergel 0.5 2 (Some (ln 2)) (Some 1) 1 None (world0 :: nat world) =
        Inr (0, series_example)"
    by (simp add: series_example_def ParamSeries_init_def world0_def Let_def)
  then show ?thesis by (rule reachable.init[OF reachable.start])
qed

text \<open>
  C10. For a Spergel or Moffat series object \<open>self\<close> of a reachable heap, \<^verbatim>\<open>dilate\<close>,
  \<^verbatim>\<open>rotate\<close> and \<^verbatim>\<open>shear\<close> return another object and leave \<open>self\<close> as it was: its
  attributes (the cached decomposition among them), the entries of its matrix, and
  what \<^verbatim>\<open>_decomposeA\<close> returns for it.
\<close>

theorem transforms_leave_receiver_unchanged:
  assumes "reachable e1 w" "self < nobj w"
  shows "(\<forall>s ret w'. dilate self s w = (ret, w') \<longrightarrow> receiver_unchanged e1 self w ret w') \<and>
         (\<forall>t ret w'. rotate self t w = (ret, w') \<longrightarrow> receiver_unchanged e1 self w ret w') \<and>
         (\<forall>mk args kwargs ret w'. shear mk self args kwargs w = Inr (ret, w') \<longrightarrow>
            receiver_unchanged e1 self w ret w')"
proof -
  have "A_ref (objs w self) < nmat w"
    using reachable_inv[OF assms(1)] assms(2) by (simp add: series_inv_def)
  from applyMatrix_receiver[OF assms(2) this] show ?thesis
    unfolding dilate_def rotate_def by (blast dest: shear_applyMatrix)
qed

theorem transforms_leave_receiver_unchanged_witness:
  "(case dilate 0 2 series_example of
      (ret, w') \<Rightarrow>
        ret = 1 \<and> receiver_unchanged tanh 0 series_example ret w' \<and>
        mats w' (A_ref (objs w' 0)) = (1, 0, 0, 1) \<and> mats w' (A_ref (objs w' ret)) = (2, 0, 0, 2))"
proof -
  obtain ret w' where d: "dilate 0 2 series_example = (ret, w')" by (cases "dilate 0 2 series_example")
  have "receiver_unchanged tanh 0 series_example ret w'"
    using transforms_leave_receiver_unchanged[OF series_example_reachable, of 0 tanh] d
    by (simp add: series_example_defs)
  moreover have "ret = 1" "mats w' (A_ref (objs w' 0)) = (1, 0, 0, 1)"
    "mats w' (A_ref (objs w' ret)) = (2, 0, 0, 2)"
    using d by (auto simp: dilate_def applyMatrix_eval series_example_defs)
  ultimately show ?thesis by (simp add: d)
qed

text \<open>
  C5. For an object \<open>self\<close> of a reachable heap, \<^verbatim>\<open>_decomposeA\<close> returns the
  decomposition of the object's present matrix, cached or not. Where the continuous
  scale \<open>r0\<close> exists and \<^verbatim>\<open>dlnr\<close> is not zero, the \<^verbatim>\<open>scale_radius\<close> returned is
  \<open>exp (dlnr * k)\<close> for an integer \<open>k\<close> with \<open>|ln r0 / dlnr - k| \<le> 1/2\<close>, so that
  \<open>|ln (r0 / scale_radius)| \<le> |dlnr| / 2\<close>. Each of \<^verbatim>\<open>dilate\<close>, \<^verbatim>\<open>rotate\<close> and
  \<^verbatim>\<open>shear\<close> returns an object without cached decomposition, whose matrix is the
  product and whose \<^verbatim>\<open>_decomposeA\<close> is the decomposition of the product.
\<close>

theorem decomposeA_grid_and_invalidation:
  assumes "reachable e1 w" "self < nobj w"
  shows "map_sum id fst (decomposeA e1 self w) =
           decompose e1 (cls (objs w self)) (dlnr (objs w self)) (mats w (A_ref (objs w self))) \<and>
         (\<forall>el ph r0. decompose_r0 e1 (mats w (A_ref (objs w self))) = Inr (el, ph, r0) \<and>
              dlnr (objs w self) \<noteq> 0 \<longrightarrow>
            (\<exists>k::int.
               map_sum id fst (decomposeA e1 self w) =
                 Inr (el, ph, exp (dlnr (objs w self) * real_of_int k),
                      (case cls (objs w self) of
                         Spergel \<Rightarrow> 1 - (r0 / exp (dlnr (objs w self) * real_of_int k))\<^sup>2
                       | Moffat \<Rightarrow> 1 - (exp (dlnr (objs w self) * real_of_int k) / r0)\<^sup>2)) \<and>
               \<bar>ln r0 / dlnr (objs w self) - real_of_int k\<bar> \<le> 1 / 2 \<and>
               \<bar>ln (r0 / exp (dlnr (objs w self) * real_of_int k))\<bar> \<le> \<bar>dlnr (objs w self)\<bar> / 2)) \<and>
         (\<forall>s ret w'. dilate self s w = (ret, w') \<longrightarrow> invalidated e1 self (s, 0, 0, s) w ret w') \<and>
         (\<forall>t ret w'. rotate self t w = (ret, w') \<longrightarrow>
            invalidated e1 self (cos t, - sin t, sin t, cos t) w ret w') \<and>
         (\<forall>mk args kwargs ret w'. shear mk self args kwargs w = Inr (ret, w') \<longrightarrow>
            (\<exists>J. invalidated e1 self J w ret w'))"
proof -
  let ?ob = "objs w self"
  have inv: "series_inv e1 w" by (rule reachable_inv[OF assms(1)])
  have fresh: "map_sum id fst (decomposeA e1 self w) =
     decompose e1 (cls ?ob) (dlnr ?ob) (mats w (A_ref ?ob))"
    by (rule decomposeA_fresh[OF inv assms(2)])
  have grid: "\<exists>k::int.
        map_sum id fst (decomposeA e1 self w) =
          Inr (el, ph, exp (dlnr ?ob * real_of_int k),
               (case cls ?ob of
                  Spergel \<Rightarrow> 1 - (r0 / exp (dlnr ?ob * real_of_int k))\<^sup>2
                | Moffat \<Rightarrow> 1 - (exp (dlnr ?ob * real_of_int k) / r0)\<^sup>2)) \<and>
        \<bar>ln r0 / dlnr ?ob - real_of_int k\<bar> \<le> 1 / 2 \<and>
        \<bar>ln (r0 / exp (dlnr ?ob * real_of_int k))\<bar> \<le> \<bar>dlnr ?ob\<bar> / 2"
    if "decompose_r0 e1 (mats w (A_ref ?ob)) = Inr (el, ph, r0) \<and> dlnr ?ob \<noteq> 0" for el ph r0
    using decompose_grid[of e1 "mats w (A_ref ?ob)" el ph r0 "dlnr ?ob" "cls ?ob"] that
    unfolding fresh by blast
  have ap: "invalidated e1 self J w ret w'" if "applyMatrix self J w = (ret, w')" for J ret w'
    by (rule applyMatrix_invalidated[OF inv assms(2) that])
  have sh: "\<exists>J. invalidated e1 self J w ret w'"
    if "shear mk self args kwargs w = Inr (ret, w')" for mk args kwargs ret w'
    using shear_applyMatrix[OF that] ap by blast
  show ?thesis using fresh grid ap sh unfolding dilate_def rotate_def by blast
qed

theorem decomposeA_grid_and_invalidation_witness:
  "map_sum id fst (decomposeA tanh 0 series_example) = Inr (0, 0, 1, 0) \<and>
   (case dilate 0 2 series_example of
      (ret, w') \<Rightarrow> ellip (objs w' ret) = None \<and> mats w' (A_ref (objs w' ret)) = (2, 0, 0, 2) \<and>
        map_sum id fst (decomposeA tanh ret w') = Inr (0, 0, 2, 0))"
proof -
  note th = decomposeA_grid_and_invalidation[OF series_example_reachable, of 0 tanh]
  have n: "(0::nat) < nobj series_example" by (simp add: series_example_defs)
  have ob: "cls (objs series_example 0) = Spergel" "dlnr (objs series_example 0) = ln 2"
    "mats series_example (A_ref (objs series_example 0)) = (1, 0, 0, 1)"
    by (simp_all add: series_example_defs)
  have r1: "decompose_r0 tanh (1, 0, 0, 1) = Inr (0, 0, 1)"
    by (simp add: decompose_r0_def atan2_def Let_def)
  have r2: "decompose_r0 tanh (2, 0, 0, 2) = Inr (0, 0, 2)"
    by (simp add: decompose_r0_def atan2_def Let_def)
  have n1: "nearest_i 1 (ln 2) = 0" by (simp add: nearest_i_def modf_def Let_def)
  have n2: "nearest_i 2 (ln 2) = 1" by (simp add: nearest_i_def modf_def Let_def)
  have d1: "decompose tanh Spergel (ln 2) (1, 0, 0, 1) = Inr (0, 0, 1, 0)"
    by (simp add: decompose_def r1 n1 Let_def)
  have d2: "decompose tanh Spergel (ln 2) (2, 0, 0, 2) = Inr (0, 0, 2, 0)"
    by (simp add: decompose_def r2 n2 Let_def)
  obtain ret w' where d: "dilate 0 2 series_example = (ret, w')" by (cases "dilate 0 2 series_example")
  have a: "map_sum id fst (decomposeA tanh 0 series_example) = Inr (0, 0, 1, 0)"
    using th[OF n] by (simp add: ob d1)
  have "invalidated tanh 0 (2, 0, 0, 2) series_example ret w'"
    using th[OF n] d by blast
  then have b: "ellip (objs w' ret) = None" "mats w' (A_ref (objs w' ret)) = (2, 0, 0, 2)"
    "map_sum id fst (decomposeA tanh ret w') = Inr (0, 0, 2, 0)"
    by (simp_all add: invalidated_def ob d2)
  show ?thesis using a b by (simp add: d)
qed
end
